theory Spec2Isabelle
  imports Main
begin

section \<open>Python values as the monitor sees them\<close>

text \<open>
  The program is \<^verbatim>\<open>src/apiScript/ws_monitor.py\<close>, a WebSocket client that prints
  what a clipboard server pushes. A Python \<^verbatim>\<open>str\<close> is a sequence of Unicode code
  points, and slicing counts code points, so a string is a list of code points here.
  ASCII text is written as a HOL string and converted with \<open>asc\<close>; the emoji and the
  Chinese words of the printed lines are given by their code points.
\<close>

type_synonym pystr = "nat list"

definition asc :: "string \<Rightarrow> pystr" where
  "asc s = map of_char s"

text \<open>
  What \<^verbatim>\<open>json.loads\<close> returns: \<^verbatim>\<open>None\<close>, a bool, an int (unbounded), a float, a
  str, a list or a dict with str keys. A float is carried as the text that Python's
  \<^verbatim>\<open>repr\<close> gives for it (\<^verbatim>\<open>1.5\<close>, \<^verbatim>\<open>1e+22\<close>, \<^verbatim>\<open>inf\<close>, \<^verbatim>\<open>nan\<close>): the program only
  prints floats and tests them for truth. A dict is an association list in insertion
  order, read with \<open>map_of\<close>.
\<close>

datatype json =
    JNull
  | JBool bool
  | JInt int
  | JFloat pystr
  | JStr pystr
  | JList "json list"
  | JObj "(pystr \<times> json) list"

type_synonym pydict = "(pystr \<times> json) list"

text \<open>
  Exceptions, by the classes the program's \<^verbatim>\<open>except\<close> clauses tell apart. The first
  three carry the text of \<^verbatim>\<open>str(e)\<close>. \<open>TypeFault op v\<close> is the \<^verbatim>\<open>TypeError\<close>,
  \<^verbatim>\<open>AttributeError\<close> or \<^verbatim>\<open>KeyError\<close> that the interpreter raises when the operation
  \<open>op\<close> is applied to a value \<open>v\<close> that does not support it. \<open>CancelledError\<close> is the
  only one that is not a subclass of \<^verbatim>\<open>Exception\<close>.
\<close>

datatype exn =
    JSONDecodeError pystr
  | ConnectionClosed pystr
  | OtherException pystr
  | TypeFault pystr json
  | CancelledError

fun is_Exception :: "exn \<Rightarrow> bool" where
  "is_Exception CancelledError = False"
| "is_Exception _ = True"

text \<open>
  Two texts are the interpreter's own and are not modelled: the \<^verbatim>\<open>repr\<close> of a list or
  dict, and the message of an error it raises itself. Every function that prints one of
  them takes them as \<open>rt\<close>.
\<close>

record runtime =
  container_repr :: "json \<Rightarrow> pystr"
  fault_text :: "pystr \<Rightarrow> json \<Rightarrow> pystr"

subsection \<open>Built-in operations\<close>

text \<open>\<^verbatim>\<open>str(n)\<close> for an int: decimal digits, with a minus sign when negative.\<close>

function dec_digits :: "nat \<Rightarrow> pystr" where
  "dec_digits n = (if n < 10 then [48 + n] else dec_digits (n div 10) @ [48 + n mod 10])"
  by pat_completeness auto
termination
  by (relation "measure id") auto

declare dec_digits.simps [simp del]

definition int_str :: "int \<Rightarrow> pystr" where
  "int_str i = (if i < 0 then 45 # dec_digits (nat (- i)) else dec_digits (nat i))"

text \<open>\<^verbatim>\<open>str(v)\<close>, which is what an f-string field \<^verbatim>\<open>{v}\<close> prints.\<close>

fun py_str :: "runtime \<Rightarrow> json \<Rightarrow> pystr" where
  "py_str rt JNull = asc ''None''"
| "py_str rt (JBool b) = (if b then asc ''True'' else asc ''False'')"
| "py_str rt (JInt i) = int_str i"
| "py_str rt (JFloat t) = t"
| "py_str rt (JStr s) = s"
| "py_str rt v = container_repr rt v"

text \<open>Truth value of \<^verbatim>\<open>if v:\<close>.\<close>

fun truthy :: "json \<Rightarrow> bool" where
  "truthy JNull = False"
| "truthy (JBool b) = b"
| "truthy (JInt i) = (i \<noteq> 0)"
| "truthy (JFloat t) = (t \<noteq> asc ''0.0'' \<and> t \<noteq> asc ''-0.0'')"
| "truthy (JStr s) = (s \<noteq> [])"
| "truthy (JList xs) = (xs \<noteq> [])"
| "truthy (JObj d) = (d \<noteq> [])"

text \<open>\<^verbatim>\<open>d.get(k, default)\<close> and \<^verbatim>\<open>k in d\<close>.\<close>

definition dict_get :: "pydict \<Rightarrow> pystr \<Rightarrow> json \<Rightarrow> json" where
  "dict_get d k dflt = (case map_of d k of Some v \<Rightarrow> v | None \<Rightarrow> dflt)"

definition has_key :: "pydict \<Rightarrow> pystr \<Rightarrow> bool" where
  "has_key d k = (map_of d k \<noteq> None)"

text \<open>\<^verbatim>\<open>len(v)\<close>: defined on str, list and dict, a \<^verbatim>\<open>TypeError\<close> on the rest.\<close>

fun py_len :: "json \<Rightarrow> exn + nat" where
  "py_len (JStr s) = Inr (length s)"
| "py_len (JList xs) = Inr (length xs)"
| "py_len (JObj d) = Inr (length (remdups (map fst d)))"
| "py_len v = Inl (TypeFault (asc ''len'') v)"

text \<open>
  \<^verbatim>\<open>s.replace(c, ' ')\<close> for a one-character \<open>c\<close>: every \<open>c\<close> becomes a space (32).
  \<^verbatim>\<open>v[:n].replace(c, ' ')\<close> on a str works on its first \<open>n\<close> code points. A list can
  be sliced but has no \<^verbatim>\<open>replace\<close>; nothing else can be sliced.
\<close>

definition str_replace :: "nat \<Rightarrow> pystr \<Rightarrow> pystr" where
  "str_replace c s = map (\<lambda>x. if x = c then 32 else x) s"

fun slice_replace :: "nat \<Rightarrow> nat \<Rightarrow> json \<Rightarrow> exn + pystr" where
  "slice_replace n c (JStr s) = Inr (str_replace c (take n s))"
| "slice_replace n c (JList xs) = Inl (TypeFault (asc ''replace'') (JList (take n xs)))"
| "slice_replace n c v = Inl (TypeFault (asc ''slice'') v)"

section \<open>The printed lines\<close>

definition line_error :: "runtime \<Rightarrow> pystr \<Rightarrow> json \<Rightarrow> pystr" where
  "line_error rt ts v =
     asc ''['' @ ts @ asc ''] '' @ [10060] @ asc '' '' @ [38169, 35823] @ asc '': '' @ py_str rt v"

definition line_status :: "runtime \<Rightarrow> pystr \<Rightarrow> json \<Rightarrow> pystr" where
  "line_status rt ts v = asc ''['' @ ts @ asc ''] '' @ [9989] @ asc '' '' @ py_str rt v"

definition line_new_item :: "runtime \<Rightarrow> pystr \<Rightarrow> json \<Rightarrow> pystr \<Rightarrow> pystr" where
  "line_new_item rt ts ty content_preview =
     asc ''['' @ ts @ asc ''] '' @ [127381] @ asc '' '' @ [26032, 20869, 23481] @ asc '': ''
       @ py_str rt ty @ asc '' - '' @ content_preview @ asc ''...''"

definition line_deleted :: "runtime \<Rightarrow> pystr \<Rightarrow> json \<Rightarrow> pystr" where
  "line_deleted rt ts item_id =
     asc ''['' @ ts @ asc ''] '' @ [128465, 65039] @ asc '' ''
       @ [20869, 23481, 24050, 21024, 38500] @ asc '': '' @ py_str rt item_id"

definition line_count :: "runtime \<Rightarrow> pystr \<Rightarrow> json \<Rightarrow> pystr" where
  "line_count rt ts count =
     asc ''['' @ ts @ asc ''] '' @ [128203] @ asc '' ''
       @ [24403, 21069, 20869, 23481, 24635, 25968] @ asc '': '' @ py_str rt count
       @ asc '' '' @ [26465]"

definition line_latest :: pystr where
  "line_latest = [26368, 26032, 30340] @ asc ''3'' @ [26465, 20869, 23481] @ asc '':''"

definition line_item :: "runtime \<Rightarrow> nat \<Rightarrow> pystr \<Rightarrow> json \<Rightarrow> pystr \<Rightarrow> pystr" where
  "line_item rt i created_time ty content_preview =
     asc ''  '' @ dec_digits (i + 1) @ asc ''. ['' @ created_time @ asc ''] ''
       @ py_str rt ty @ asc '': '' @ content_preview @ asc ''...''"

definition line_stats :: "runtime \<Rightarrow> pystr \<Rightarrow> json \<Rightarrow> pystr" where
  "line_stats rt ts n =
     asc ''['' @ ts @ asc ''] '' @ [128202] @ asc '' '' @ [36830, 25509, 32479, 35745]
       @ asc '': '' @ py_str rt n @ asc '' '' @ [20010, 27963, 36291, 36830, 25509]"

definition line_received :: "runtime \<Rightarrow> pystr \<Rightarrow> json \<Rightarrow> pystr" where
  "line_received rt ts message_type =
     asc ''['' @ ts @ asc ''] '' @ [128232] @ asc '' '' @ [25910, 21040, 28040, 24687]
       @ asc '': '' @ py_str rt message_type"

section \<open>handle\_message\<close>

text \<open>
  The handler prints and may raise in the middle, so its result is the lines printed so
  far together with the exception, if any, that ended it.
\<close>

type_synonym outcome = "pystr list \<times> exn option"

text \<open>Lines 97 to 100: the payload of a \<^verbatim>\<open>sync\<close> message taken as a new item.\<close>

definition sync_item :: "runtime \<Rightarrow> pystr \<Rightarrow> pydict \<Rightarrow> outcome" where
  "sync_item rt ts item =
     (if truthy (dict_get item (asc ''type'') JNull) then
        (case slice_replace 100 10 (dict_get item (asc ''content'') (JStr [])) of
           Inl e \<Rightarrow> ([], Some e)
         | Inr content_preview \<Rightarrow>
             ([line_new_item rt ts (dict_get item (asc ''type'') JNull) content_preview], None))
      else ([], None))"

text \<open>Lines 89 to 100.\<close>

definition handle_sync :: "runtime \<Rightarrow> pystr \<Rightarrow> pydict \<Rightarrow> outcome" where
  "handle_sync rt ts data =
     (case dict_get data (asc ''data'') JNull of
        JObj payload \<Rightarrow>
          if has_key payload (asc ''error'') then
            ([line_error rt ts (dict_get payload (asc ''error'') JNull)], None)
          else if has_key payload (asc ''message'') then
            ([line_status rt ts (dict_get payload (asc ''message'') JNull)], None)
          else sync_item rt ts payload
      | _ \<Rightarrow> ([], None))"

text \<open>Lines 114 to 116: the line of one item of \<^verbatim>\<open>all_content\<close>, at index \<open>i\<close>.\<close>

definition item_preview :: "runtime \<Rightarrow> nat \<Rightarrow> json \<Rightarrow> exn + pystr" where
  "item_preview rt i item =
     (case item of
        JObj it \<Rightarrow>
          (case slice_replace 19 84 (dict_get it (asc ''createdAt'') (JStr [])) of
             Inl e \<Rightarrow> Inl e
           | Inr created_time \<Rightarrow>
               (case slice_replace 80 10 (dict_get it (asc ''content'') (JStr [])) of
                  Inl e \<Rightarrow> Inl e
                | Inr content_preview \<Rightarrow>
                    Inr (line_item rt i created_time (dict_get it (asc ''type'') JNull)
                           content_preview)))
      | _ \<Rightarrow> Inl (TypeFault (asc ''get'') item))"

text \<open>The \<^verbatim>\<open>for\<close> loop of line 113: it stops at the first item that raises.\<close>

fun preview_loop :: "runtime \<Rightarrow> nat \<Rightarrow> json list \<Rightarrow> outcome" where
  "preview_loop rt i [] = ([], None)"
| "preview_loop rt i (item # rest) =
     (case item_preview rt i item of
        Inl e \<Rightarrow> ([], Some e)
      | Inr l \<Rightarrow> (case preview_loop rt (Suc i) rest of (ls, r) \<Rightarrow> (l # ls, r)))"

text \<open>
  \<^verbatim>\<open>enumerate(items[:3])\<close>: a list gives its first three elements, a str its first
  three characters as one-character strings, and a dict cannot be sliced.
\<close>

fun first_three :: "json \<Rightarrow> exn + json list" where
  "first_three (JList xs) = Inr (take 3 xs)"
| "first_three (JStr s) = Inr (map (\<lambda>c. JStr [c]) (take 3 s))"
| "first_three v = Inl (TypeFault (asc ''slice'') v)"

text \<open>
  Lines 107 to 116. Python evaluates the default \<^verbatim>\<open>len(items)\<close> of line 108 before the
  lookup, so it is computed, and may raise, also when \<^verbatim>\<open>count\<close> is present.
\<close>

definition handle_all_content :: "runtime \<Rightarrow> pystr \<Rightarrow> pydict \<Rightarrow> outcome" where
  "handle_all_content rt ts data =
     (let items = dict_get data (asc ''data'') (JList []) in
      case py_len items of
        Inl e \<Rightarrow> ([], Some e)
      | Inr n \<Rightarrow>
          (let count = dict_get data (asc ''count'') (JInt (int n)) in
           if truthy items then
             (case first_three items of
                Inl e \<Rightarrow> ([line_count rt ts count, line_latest], Some e)
              | Inr xs \<Rightarrow>
                  (case preview_loop rt 0 xs of
                     (ls, r) \<Rightarrow> (line_count rt ts count # line_latest # ls, r)))
           else ([line_count rt ts count], None)))"

text \<open>Lines 119 and 120.\<close>

definition handle_connection_stats :: "runtime \<Rightarrow> pystr \<Rightarrow> pydict \<Rightarrow> outcome" where
  "handle_connection_stats rt ts data =
     (case dict_get data (asc ''data'') (JObj []) of
        JObj stats \<Rightarrow> ([line_stats rt ts (dict_get stats (asc ''activeConnections'') (JInt 0))], None)
      | v \<Rightarrow> ([], Some (TypeFault (asc ''get'') v)))"

text \<open>
  Lines 84 to 123. \<open>ts\<close> is what \<^verbatim>\<open>time.strftime('%H:%M:%S')\<close> returns at the call.
  The argument is whatever \<^verbatim>\<open>json.loads\<close> returned; only a dict has \<^verbatim>\<open>get\<close>.
\<close>

definition handle_message :: "runtime \<Rightarrow> pystr \<Rightarrow> json \<Rightarrow> outcome" where
  "handle_message rt ts msg =
     (case msg of
        JObj data \<Rightarrow>
          (let message_type = dict_get data (asc ''type'') (JStr (asc ''unknown'')) in
           if message_type = JStr (asc ''sync'') then handle_sync rt ts data
           else if message_type = JStr (asc ''delete'') then
             ([line_deleted rt ts (dict_get data (asc ''id'') (JStr (asc ''unknown'')))], None)
           else if message_type = JStr (asc ''all_content'') then handle_all_content rt ts data
           else if message_type = JStr (asc ''connection_stats'') then
             handle_connection_stats rt ts data
           else ([line_received rt ts message_type], None))
      | _ \<Rightarrow> ([], Some (TypeFault (asc ''get'') msg)))"

section \<open>The session\<close>

text \<open>
  The connection object of the \<^verbatim>\<open>websockets\<close> library, as far as this program uses
  it: whether it is closed, the frames written to it, and the text of the
  \<^verbatim>\<open>ConnectionClosed\<close> that \<^verbatim>\<open>send\<close> raises once it is closed. \<^verbatim>\<open>close\<close> on a closed
  connection does nothing. The object has no \<^verbatim>\<open>__bool__\<close> or \<^verbatim>\<open>__len__\<close>, so it is always
  true in \<^verbatim>\<open>if self.websocket\<close>, open or closed.
\<close>

record websocket =
  ws_closed :: bool
  ws_sent :: "pystr list"
  ws_close_text :: pystr

definition ws_send :: "websocket \<Rightarrow> pystr \<Rightarrow> exn + websocket" where
  "ws_send ws s =
     (if ws_closed ws then Inl (ConnectionClosed (ws_close_text ws))
      else Inr (ws\<lparr>ws_sent := ws_sent ws @ [s]\<rparr>))"

definition ws_close :: "websocket \<Rightarrow> websocket" where
  "ws_close ws = ws\<lparr>ws_closed := True\<rparr>"

text \<open>The fields of \<^verbatim>\<open>RealtimeClipboardMonitor\<close> and its \<^verbatim>\<open>__init__\<close> (lines 25 to 30).\<close>

record monitor =
  base_url :: pystr
  device_id :: pystr
  url :: pystr
  websocket :: "websocket option"
  running :: bool

definition init_monitor :: "pystr \<Rightarrow> pystr \<Rightarrow> monitor" where
  "init_monitor u d =
     \<lparr>base_url = u, device_id = d, url = u @ asc ''?deviceId='' @ d,
      websocket = None, running = False\<rparr>"

text \<open>\<^verbatim>\<open>str(e)\<close> of an exception, as an f-string field \<^verbatim>\<open>{e}\<close> prints it.\<close>

fun exn_str :: "runtime \<Rightarrow> exn \<Rightarrow> pystr" where
  "exn_str rt (JSONDecodeError m) = m"
| "exn_str rt (ConnectionClosed m) = m"
| "exn_str rt (OtherException m) = m"
| "exn_str rt (TypeFault opn v) = fault_text rt opn v"
| "exn_str rt CancelledError = []"

definition line_disconnected :: pystr where
  "line_disconnected = [128268] @ asc '' WebSocket '' @ [36830, 25509, 24050, 26029, 24320]"

definition line_sent :: "pystr \<Rightarrow> pystr" where
  "line_sent message_str = [128228] @ asc '' '' @ [21457, 36865] @ asc '': '' @ message_str"

definition line_send_failed :: "pystr \<Rightarrow> pystr" where
  "line_send_failed e = [10060] @ asc '' '' @ [21457, 36865, 22833, 36133] @ asc '': '' @ e"




subsection \<open>disconnect\<close>

text \<open>Lines 46 to 51. The attribute keeps the connection object after it is closed.\<close>

definition disconnect :: "monitor \<Rightarrow> monitor \<times> pystr list" where
  "disconnect m =
     (case websocket m of
        None \<Rightarrow> (m, [])
      | Some ws \<Rightarrow> (m\<lparr>running := False, websocket := Some (ws_close ws)\<rparr>, [line_disconnected]))"

subsection \<open>json.dumps\<close>

text \<open>
  \<^verbatim>\<open>json.dumps(message, ensure_ascii=False)\<close> with the default separators \<^verbatim>\<open>', '\<close> and
  \<^verbatim>\<open>': '\<close>. With \<^verbatim>\<open>ensure_ascii=False\<close> the encoder escapes the double quote (34), the
  backslash (92) and the control characters below 32, and copies every other code
  point. Keys come out in insertion order.
\<close>

definition hex_digit :: "nat \<Rightarrow> nat" where
  "hex_digit d = (if d < 10 then 48 + d else 87 + d)"

definition escape_char :: "nat \<Rightarrow> pystr" where
  "escape_char c =
     (if c = 34 then [92, 34]
      else if c = 92 then [92, 92]
      else if c = 10 then [92, 110]
      else if c = 13 then [92, 114]
      else if c = 9 then [92, 116]
      else if c = 8 then [92, 98]
      else if c = 12 then [92, 102]
      else if c < 32 then [92, 117, 48, 48, hex_digit (c div 16), hex_digit (c mod 16)]
      else [c])"

definition encode_str :: "pystr \<Rightarrow> pystr" where
  "encode_str s = [34] @ concat (map escape_char s) @ [34]"

fun join_items :: "pystr list \<Rightarrow> pystr" where
  "join_items [] = []"
| "join_items [x] = x"
| "join_items (x # xs) = x @ asc '', '' @ join_items xs"

fun py_dumps :: "json \<Rightarrow> pystr" where
  "py_dumps JNull = asc ''null''"
| "py_dumps (JBool b) = (if b then asc ''true'' else asc ''false'')"
| "py_dumps (JInt i) = int_str i"
| "py_dumps (JFloat t) =
     (if t = asc ''nan'' then asc ''NaN''
      else if t = asc ''inf'' then asc ''Infinity''
      else if t = asc ''-inf'' then asc ''-Infinity''
      else t)"
| "py_dumps (JStr s) = encode_str s"
| "py_dumps (JList xs) = asc ''['' @ join_items (map py_dumps xs) @ asc '']''"
| "py_dumps (JObj d) =
     asc ''{'' @ join_items (map (\<lambda>kv. encode_str (fst kv) @ asc '': '' @ py_dumps (snd kv)) d)
       @ asc ''}''"

subsection \<open>send\_message and request\_current\_content\<close>

text \<open>
  Lines 53 to 63. The result is the session, the lines printed and the exception that
  leaves the function, if any: \<^verbatim>\<open>except Exception\<close> stops all but \<open>CancelledError\<close>.
\<close>

definition send_message :: "runtime \<Rightarrow> monitor \<Rightarrow> json \<Rightarrow> monitor \<times> pystr list \<times> exn option" where
  "send_message rt m message =
     (case websocket m of
        None \<Rightarrow> (m, [], None)
      | Some ws \<Rightarrow>
          (let message_str = py_dumps message in
           case ws_send ws message_str of
             Inr ws' \<Rightarrow> (m\<lparr>websocket := Some ws'\<rparr>, [line_sent message_str], None)
           | Inl e \<Rightarrow>
               if is_Exception e then (m, [line_send_failed (exn_str rt e)], None)
               else (m, [], Some e)))"

text \<open>Lines 125 to 130.\<close>

definition request_current_content :: "runtime \<Rightarrow> monitor \<Rightarrow> monitor \<times> pystr list \<times> exn option" where
  "request_current_content rt m =
     send_message rt m
       (JObj [(asc ''type'', JStr (asc ''get_all_content'')),
              (asc ''data'', JObj [(asc ''limit'', JInt 10)])])"

subsection \<open>listen\_messages\<close>

text \<open>
  What \<^verbatim>\<open>async for message in self.websocket\<close> yields is an input: the frames, each with
  the clock text \<^verbatim>\<open>strftime\<close> returns while it is handled, and how the iteration ends,
  \<open>None\<close> when the iterator is exhausted and \<open>Some e\<close> when it raises \<open>e\<close>. A frame is a
  str or a bytes object. \<^verbatim>\<open>json.loads\<close> is the library's and is taken as the
  parameter \<open>loads\<close>.
\<close>

datatype frame = TextFrame pystr | BinaryFrame "nat list"






section \<open>Notions used in the statements\<close>

text \<open>
  The text a message carries: its strings and keys, and the texts of its floats, in the
  order \<^verbatim>\<open>json.dumps\<close> writes them. \<open>non_ascii\<close> keeps the code points from 128 on.
\<close>

fun json_text :: "json \<Rightarrow> pystr" where
  "json_text (JStr s) = s"
| "json_text (JFloat t) = t"
| "json_text (JList xs) = concat (map json_text xs)"
| "json_text (JObj d) = concat (map (\<lambda>kv. fst kv @ json_text (snd kv)) d)"
| "json_text v = []"

definition non_ascii :: "pystr \<Rightarrow> pystr" where
  "non_ascii s = filter (\<lambda>c. 128 \<le> c) s"







section \<open>Sample inputs\<close>

text \<open>
  A runtime, a session before and after \<^verbatim>\<open>connect\<close>, and a stand-in for
  \<^verbatim>\<open>json.loads\<close> on the frames used in the concrete evaluations below: it parses one
  frame, fails on the bytes frame \<^verbatim>\<open>b'\x80abc'\<close> with the \<^verbatim>\<open>UnicodeDecodeError\<close> that
  \<^verbatim>\<open>json.loads\<close> raises there (a \<^verbatim>\<open>ValueError\<close> that is not a \<^verbatim>\<open>JSONDecodeError\<close>), and
  rejects any other frame as malformed JSON. No general theorem depends on them.
\<close>

definition rt0 :: runtime where
  "rt0 = \<lparr>container_repr = (\<lambda>v. asc ''<container>''), fault_text = (\<lambda>opn v. asc ''<fault>'')\<rparr>"

definition ws0 :: websocket where
  "ws0 = \<lparr>ws_closed = False, ws_sent = [], ws_close_text = asc ''no close frame received or sent''\<rparr>"

definition m0 :: monitor where
  "m0 = init_monitor (asc ''ws://localhost:3002/ws'') (asc ''monitor-python'')"

definition m_open :: monitor where
  "m_open = m0\<lparr>websocket := Some ws0, running := True\<rparr>"




section \<open>Auxiliary facts\<close>





section \<open>Dispatch of handle\_message\<close>



text \<open>
  C10. A message with no \<open>type\<close> field takes the tag \<open>unknown\<close> and falls to the last
  branch: the handler prints one line, the notice of a received message, ending in
  \<open>unknown\<close>, and raises nothing.
\<close>

theorem handle_message_no_type:
  "map_of data (asc ''type'') = None \<Longrightarrow>
   handle_message rt ts (JObj data) =
     ([asc ''['' @ ts @ asc ''] '' @ [128232] @ asc '' '' @ [25910, 21040, 28040, 24687]
         @ asc '': unknown''], None)"
  by (simp add: handle_message_def dict_get_def line_received_def asc_def)

text \<open>The empty object \<^verbatim>\<open>{}\<close>, and an object with other fields only.\<close>

theorem handle_message_no_type_witness:
  "handle_message rt0 (asc ''12:00:00'') (JObj [(asc ''id'', JInt 7)]) =
     ([asc ''[12:00:00] '' @ [128232] @ asc '' '' @ [25910, 21040, 28040, 24687]
         @ asc '': unknown''], None)"
  using handle_message_no_type [of "[(asc ''id'', JInt 7)]" rt0 "asc ''12:00:00''"]
  by (simp add: asc_def)







section \<open>Failure and silence of handle\_message\<close>







section \<open>The session operations\<close>

text \<open>
  C9. \<^verbatim>\<open>disconnect\<close> is idempotent on the session state: a second call leaves the
  running flag and the connection handle as the first call left them. With no
  connection it changes nothing and prints nothing; with a connection it clears the
  running flag and closes the channel, the handle staying in place.
\<close>

theorem disconnect_idempotent:
  "fst (disconnect (fst (disconnect m))) = fst (disconnect m) \<and>
   (websocket m = None \<longrightarrow> disconnect m = (m, [])) \<and>
   (\<forall>ws. websocket m = Some ws \<longrightarrow>
      running (fst (disconnect m)) = False \<and>
      websocket (fst (disconnect m)) = Some (ws\<lparr>ws_closed := True\<rparr>))"
  by (cases "websocket m") (simp_all add: disconnect_def ws_close_def)

text \<open>A session after \<^verbatim>\<open>connect\<close>, and one that never connected.\<close>

theorem disconnect_idempotent_witness:
  "fst (disconnect (fst (disconnect m_open))) = fst (disconnect m_open) \<and>
   fst (disconnect m_open) = m0\<lparr>websocket := Some (ws0\<lparr>ws_closed := True\<rparr>), running := False\<rparr> \<and>
   disconnect m0 = (m0, []) \<and>
   disconnect (fst (disconnect m0)) = (m0, [])"
  using disconnect_idempotent [of m_open] disconnect_idempotent [of m0]
  by (simp add: m_open_def m0_def init_monitor_def disconnect_def ws_close_def)




subsection \<open>What json.dumps keeps\<close>

lemma non_ascii_append: "non_ascii (xs @ ys) = non_ascii xs @ non_ascii ys"
  by (simp add: non_ascii_def)

lemma non_ascii_concat: "non_ascii (concat xss) = concat (map non_ascii xss)"
  by (induction xss) (simp_all add: non_ascii_def)

lemma non_ascii_dec_digits: "non_ascii (dec_digits n) = []"
proof (induction n rule: dec_digits.induct)
  case (1 n)
  show ?case
  proof (cases "n < 10")
    case True
    then show ?thesis by (simp add: dec_digits.simps [of n] non_ascii_def)
  next
    case False
    have "n mod 10 < 10" by simp
    then have "\<not> 128 \<le> 48 + n mod 10" by linarith
    with False 1 show ?thesis
      by (simp add: dec_digits.simps [of n] non_ascii_append) (simp add: non_ascii_def)
  qed
qed

lemma non_ascii_int_str: "non_ascii (int_str i) = []"
  using non_ascii_dec_digits by (simp add: int_str_def non_ascii_def)

lemma hex_digit_ascii: "d < 16 \<Longrightarrow> \<not> 128 \<le> hex_digit d"
  by (simp add: hex_digit_def)

lemma non_ascii_escape_char: "non_ascii (escape_char c) = non_ascii [c]"
proof (cases "c < 32")
  case True
  then have "c div 16 < 16" "c mod 16 < 16" by simp_all
  then have "\<not> 128 \<le> hex_digit (c div 16)" "\<not> 128 \<le> hex_digit (c mod 16)"
    by (simp_all add: hex_digit_ascii)
  with True show ?thesis by (simp add: escape_char_def non_ascii_def)
next
  case False
  then show ?thesis by (simp add: escape_char_def non_ascii_def)
qed

lemma non_ascii_encode_str: "non_ascii (encode_str s) = non_ascii s"
proof -
  have "non_ascii (concat (map escape_char s)) = non_ascii s"
    by (induction s) (simp_all add: non_ascii_append non_ascii_escape_char, simp_all add: non_ascii_def)
  then show ?thesis by (simp add: encode_str_def non_ascii_append) (simp add: non_ascii_def)
qed

lemma non_ascii_join_items: "non_ascii (join_items xs) = concat (map non_ascii xs)"
  by (induction xs rule: join_items.induct)
     (simp_all add: non_ascii_append, simp_all add: non_ascii_def asc_def)

lemma non_ascii_punct:
  "non_ascii (asc ''['') = []" "non_ascii (asc '']'') = []"
  "non_ascii (asc ''{'') = []" "non_ascii (asc ''}'') = []"
  "non_ascii (asc '': '') = []"
  by (simp_all add: non_ascii_def asc_def)

lemma non_ascii_py_dumps: "non_ascii (py_dumps v) = non_ascii (json_text v)"
proof (induction v rule: py_dumps.induct)
  case 1 show ?case by (simp add: non_ascii_def asc_def)
next
  case (2 b) show ?case by (simp add: non_ascii_def asc_def)
next
  case (3 i) show ?case by (simp add: non_ascii_int_str) (simp add: non_ascii_def)
next
  case (4 t) show ?case by (auto simp: non_ascii_def asc_def)
next
  case (5 s) show ?case by (simp add: non_ascii_encode_str)
next
  case (6 xs)
  then have "map (\<lambda>x. non_ascii (py_dumps x)) xs = map (\<lambda>x. non_ascii (json_text x)) xs"
    by simp
  then have c: "concat (map (\<lambda>x. non_ascii (py_dumps x)) xs) =
                concat (map (\<lambda>x. non_ascii (json_text x)) xs)"
    by (rule arg_cong)
  show ?case
    by (simp add: non_ascii_append non_ascii_join_items non_ascii_concat comp_def
          non_ascii_punct c)
next
  case (7 d)
  then have "map (\<lambda>kv. non_ascii (py_dumps (snd kv))) d =
             map (\<lambda>kv. non_ascii (json_text (snd kv))) d"
    by simp
  then have "map (\<lambda>kv. non_ascii (fst kv) @ non_ascii (py_dumps (snd kv))) d =
             map (\<lambda>kv. non_ascii (fst kv) @ non_ascii (json_text (snd kv))) d"
    by simp
  then have c: "concat (map (\<lambda>kv. non_ascii (fst kv) @ non_ascii (py_dumps (snd kv))) d) =
                concat (map (\<lambda>kv. non_ascii (fst kv) @ non_ascii (json_text (snd kv))) d)"
    by (rule arg_cong)
  show ?case
    by (simp add: non_ascii_append non_ascii_join_items non_ascii_concat comp_def
          non_ascii_encode_str non_ascii_punct c)
qed

lemma dumps_request:
  "py_dumps (JObj [(asc ''type'', JStr (asc ''get_all_content'')),
              (asc ''data'', JObj [(asc ''limit'', JInt 10)])]) =
   asc ''{\"type\": \"get_all_content\", \"data\": {\"limit\": 10}}''"
  by (simp add: asc_def encode_str_def escape_char_def int_str_def dec_digits.simps)

text \<open>
  C8. On an open channel \<^verbatim>\<open>request_current_content\<close> writes exactly the text
  \<^verbatim>\<open>{"type": "get_all_content", "data": {"limit": 10}}\<close>; what \<^verbatim>\<open>send_message\<close> writes
  is the serialisation of its message; and the serialisation keeps every code point
  from 128 on as it is: the non-ASCII code points of the output are those of the
  strings and keys of the message, in order, none escaped and none added.
\<close>

theorem request_current_content_sends:
  "(\<forall>ws. websocket m = Some ws \<and> \<not> ws_closed ws \<longrightarrow>
      request_current_content rt m =
        (m\<lparr>websocket := Some (ws\<lparr>ws_sent := ws_sent ws @
             [asc ''{\"type\": \"get_all_content\", \"data\": {\"limit\": 10}}'']\<rparr>)\<rparr>,
         [line_sent (asc ''{\"type\": \"get_all_content\", \"data\": {\"limit\": 10}}'')], None)) \<and>
   (\<forall>ws. websocket m = Some ws \<and> \<not> ws_closed ws \<longrightarrow>
      websocket (fst (send_message rt m message)) =
        Some (ws\<lparr>ws_sent := ws_sent ws @ [py_dumps message]\<rparr>)) \<and>
   non_ascii (py_dumps message) = non_ascii (json_text message)"
  by (simp add: request_current_content_def send_message_def ws_send_def Let_def
        dumps_request non_ascii_py_dumps del: py_dumps.simps)

text \<open>
  The request on a fresh connection, and a message with two Chinese characters and a
  newline: the characters are written as they are, the newline is escaped.
\<close>

theorem request_current_content_sends_witness:
  "request_current_content rt0 m_open =
     (m_open\<lparr>websocket := Some (ws0\<lparr>ws_sent :=
         [asc ''{\"type\": \"get_all_content\", \"data\": {\"limit\": 10}}'']\<rparr>)\<rparr>,
      [[128228] @ asc '' '' @ [21457, 36865]
         @ asc '': {\"type\": \"get_all_content\", \"data\": {\"limit\": 10}}''], None) \<and>
   websocket (fst (send_message rt0 m_open (JObj [(asc ''text'', JStr [20320, 22909, 10])]))) =
     Some (ws0\<lparr>ws_sent := [asc ''{\"text\": \"'' @ [20320, 22909] @ [92, 110] @ asc ''\"}'']\<rparr>) \<and>
   non_ascii (py_dumps (JObj [(asc ''text'', JStr [20320, 22909, 10])])) = [20320, 22909]"
  using request_current_content_sends
      [of m_open rt0 "JObj [(asc ''text'', JStr [20320, 22909, 10])]"]
  by (simp add: m_open_def m0_def init_monitor_def ws0_def line_sent_def non_ascii_def
        encode_str_def escape_char_def asc_def)

section \<open>The listen loop\<close>













end
